theory Spec2Isabelle
  imports Complex_Main
begin

section \<open>Data model\<close>

text \<open>
  The bot of \<^verbatim>\<open>supabase/functions/telegram-bot/index.ts\<close>: a webhook that gates
  requests by a shared secret, gates updates by an allow-list of usernames, dispatches
  commands and runs one conversation turn per free-text message.

  The type \<^verbatim>\<open>Message\<close> is imported from \<^verbatim>\<open>utils.ts\<close>; the handler builds
  values with the fields \<^verbatim>\<open>role\<close> and \<^verbatim>\<open>content\<close> and the roles
  \<^verbatim>\<open>"user"\<close>, \<^verbatim>\<open>"assistant"\<close> and \<^verbatim>\<open>"system"\<close>.
\<close>

datatype role = System | User | Assistant

record Message =
  role :: role
  content :: string

text \<open>
  What is read of an update: \<^verbatim>\<open>ctx.from?.id\<close>, \<^verbatim>\<open>ctx.from?.username\<close>,
  \<^verbatim>\<open>ctx.update.message.text\<close>. Every one of them may be \<^verbatim>\<open>undefined\<close>, which is
  \<open>None\<close> here. The field \<open>command\<close> is the command name that the library's
  command filter finds at the start of the text, if any (the filter is the library's, not
  this repository's).
\<close>

record tg_user =
  user_id :: int
  username :: "string option"

record tg_message =
  msg_text :: "string option"

record ctx =
  from_user :: "tg_user option"
  message :: "tg_message option"
  command :: "string option"

text \<open>A thrown value: a JavaScript \<^verbatim>\<open>Error\<close> with its message, or the library's
  wrapper around what a middleware threw.\<close>

datatype error = Error string | BotError error

datatype parse_mode = Plain | HTML | Markdown

text \<open>
  The effects a handler has, in the order of the calls: a call of \<^verbatim>\<open>ctx.reply\<close>
  (whether or not the platform then delivers it), a line on the console, a call of one
  of the store functions or of the completion provider, and a promise that was rejected
  with nobody awaiting it.
\<close>

datatype event =
    Reply parse_mode string
  | ConsoleError error
  | ConsoleLog string
  | GetHistory "int option"
  | UpdateHistory "int option" "Message list"
  | ClearHistory "int option"
  | AiRequest "Message list"
  | CreditsRequest
  | UnhandledRejection error

record world =
  store :: "int option \<Rightarrow> Message list"
  trace :: "event list"

record credits =
  total_available :: string
  total_used :: string

text \<open>
  The collaborators, taken as parameters: the functions imported from \<^verbatim>\<open>utils.ts\<close>
  that compute (\<^verbatim>\<open>getUserId\<close>, \<^verbatim>\<open>estimateTokens\<close>,
  \<^verbatim>\<open>formatMessageHistory\<close>), the answers of the completion provider
  (\<^verbatim>\<open>getAiResponse\<close>, \<^verbatim>\<open>getCredits\<close>; \<open>Inl\<close> is a rejected promise), and
  for the store and the platform the error, if any, that a call meets. The two amounts of
  \<^verbatim>\<open>getCredits\<close> are only ever spliced into a template, so they are kept as the text
  the template shows. \<open>clock\<close> is the text of \<^verbatim>\<open>${new Date()} ${Date.now()}\<close>.

  The estimate is a JavaScript number, taken as a real: the handlers compare it with
  2000, floor it and print it. How JavaScript prints a number in a template literal
  (decimal digits, exponent form from \<^verbatim>\<open>1e21\<close> on) is a built-in and a parameter too,
  \<open>number_text\<close>.
\<close>

record deps =
  getUserId :: "ctx \<Rightarrow> int option"
  estimateTokens :: "string \<Rightarrow> real"
  formatMessageHistory :: "Message list \<Rightarrow> string"
  getAiResponse :: "Message list \<Rightarrow> error + string"
  getCredits :: "error + credits"
  store_read_error :: "int option \<Rightarrow> error option"
  store_write_error :: "int option \<Rightarrow> error option"
  send_error :: "string \<Rightarrow> error option"
  number_text :: "real \<Rightarrow> string"
  clock :: string

section \<open>Promises\<close>

text \<open>
  An asynchronous computation takes the world and gives back the world with what became
  of it: the value it resolved to, the error it rejected with, or the end of the process
  on a rejection that nobody handles. \<open>await\<close> is \<^verbatim>\<open>const x = await m; ...\<close>: a
  rejection skips the rest, and so does the end of the process.
\<close>

datatype 'a result = Resolved 'a | Rejected error | Exited error

type_synonym 'a promise = "world \<Rightarrow> 'a result \<times> world"

definition resolve :: "'a \<Rightarrow> 'a promise" where
  "resolve x w = (Resolved x, w)"

definition reject :: "error \<Rightarrow> 'a promise" where
  "reject e w = (Rejected e, w)"

definition await :: "'a promise \<Rightarrow> ('a \<Rightarrow> 'b promise) \<Rightarrow> 'b promise" where
  "await m f w =
     (case m w of
        (Resolved x, w') \<Rightarrow> f x w'
      | (Rejected e, w') \<Rightarrow> (Rejected e, w')
      | (Exited e, w') \<Rightarrow> (Exited e, w'))"

definition emit :: "event \<Rightarrow> unit promise" where
  "emit ev w = (Resolved (), w\<lparr>trace := trace w @ [ev]\<rparr>)"

text \<open>\<^verbatim>\<open>try { m } catch (error) { h(error) }\<close> and \<^verbatim>\<open>m.catch(h)\<close>: they handle a
  rejection, and nothing stops the end of the process.\<close>

definition try_catch :: "'a promise \<Rightarrow> (error \<Rightarrow> 'a promise) \<Rightarrow> 'a promise" where
  "try_catch m h w =
     (case m w of
        (Resolved x, w') \<Rightarrow> (Resolved x, w')
      | (Rejected e, w') \<Rightarrow> h e w'
      | (Exited e, w') \<Rightarrow> (Exited e, w'))"

text \<open>
  A promise that is started and neither awaited nor returned, with no \<^verbatim>\<open>.catch\<close>:
  lines 127 and 161. When it is rejected nobody handles the rejection.
  \<^verbatim>\<open>index.ts\<close> installs no listener for unhandled rejections, so the Deno process
  exits on it, and the run ends there. In time the rejection arrives after the call was
  started, so the handler may have started further calls before the process exits: of
  such a run the trace holds the calls up to the one that was refused, and nothing is
  claimed of the calls after it.
\<close>

definition no_await :: "'a promise \<Rightarrow> unit promise" where
  "no_await m w =
     (case m w of
        (Resolved x, w') \<Rightarrow> (Resolved (), w')
      | (Rejected e, w') \<Rightarrow> (Exited e, w'\<lparr>trace := trace w' @ [UnhandledRejection e]\<rparr>)
      | (Exited e, w') \<Rightarrow> (Exited e, w'))"

definition console_error :: "error \<Rightarrow> unit promise" where
  "console_error e = emit (ConsoleError e)"

definition console_log :: "string \<Rightarrow> unit promise" where
  "console_log s = emit (ConsoleLog s)"

text \<open>\<^verbatim>\<open>ctx.reply(text, {parse_mode})\<close>: the call is made, and the promise is rejected
  when the platform does not take the message.\<close>

definition reply :: "deps \<Rightarrow> parse_mode \<Rightarrow> string \<Rightarrow> unit promise" where
  "reply d pm s =
     await (emit (Reply pm s))
       (\<lambda>_. case send_error d s of None \<Rightarrow> resolve () | Some e \<Rightarrow> reject e)"

section \<open>The message history store\<close>

text \<open>
  Modelled from the spec: \<^verbatim>\<open>getUserMessageHistory\<close>, \<^verbatim>\<open>updateUserMessageHistory\<close>
  and \<^verbatim>\<open>clearUserMessageHistory\<close> are functions of \<^verbatim>\<open>utils.ts\<close>, which is not
  among the sources. Section 4.2 of the specification: \<^verbatim>\<open>get\<close> returns the stored
  sequence, the empty one when there is none; \<^verbatim>\<open>set\<close> replaces the stored sequence
  for that key; \<^verbatim>\<open>clear\<close> is \<^verbatim>\<open>set\<close> to the empty sequence; a failure of the
  storage layer reaches the caller as an error, and then nothing is stored.
\<close>

definition getUserMessageHistory :: "deps \<Rightarrow> int option \<Rightarrow> Message list promise" where
  "getUserMessageHistory d userId =
     await (emit (GetHistory userId))
       (\<lambda>_ w. case store_read_error d userId of
                None \<Rightarrow> (Resolved (store w userId), w)
              | Some e \<Rightarrow> (Rejected e, w))"

definition updateUserMessageHistory ::
    "deps \<Rightarrow> int option \<Rightarrow> Message list \<Rightarrow> unit promise" where
  "updateUserMessageHistory d userId msgs =
     await (emit (UpdateHistory userId msgs))
       (\<lambda>_ w. case store_write_error d userId of
                None \<Rightarrow> (Resolved (), w\<lparr>store := (store w)(userId := msgs)\<rparr>)
              | Some e \<Rightarrow> (Rejected e, w))"

definition clearUserMessageHistory :: "deps \<Rightarrow> int option \<Rightarrow> unit promise" where
  "clearUserMessageHistory d userId =
     await (emit (ClearHistory userId))
       (\<lambda>_ w. case store_write_error d userId of
                None \<Rightarrow> (Resolved (), w\<lparr>store := (store w)(userId := [])\<rparr>)
              | Some e \<Rightarrow> (Rejected e, w))"

text \<open>The two calls of the completion provider: the call is made, and its answer is the
  collaborator's.\<close>

definition askAi :: "deps \<Rightarrow> Message list \<Rightarrow> string promise" where
  "askAi d msgs =
     await (emit (AiRequest msgs))
       (\<lambda>_. case getAiResponse d msgs of Inl e \<Rightarrow> reject e | Inr r \<Rightarrow> resolve r)"

definition askCredits :: "deps \<Rightarrow> credits promise" where
  "askCredits d =
     await (emit CreditsRequest)
       (\<lambda>_. case getCredits d of Inl e \<Rightarrow> reject e | Inr c \<Rightarrow> resolve c)"

section \<open>Text\<close>

text \<open>The decimal digits of an integer, with a sign when negative: what JavaScript
  prints for an integer below \<^verbatim>\<open>1e21\<close>. It serves the sample collaborators only.\<close>

fun show_nat :: "nat \<Rightarrow> string" where
  "show_nat n =
     (if n < 10 then [char_of (48 + n)]
      else show_nat (n div 10) @ [char_of (48 + n mod 10)])"

definition show_int :: "int \<Rightarrow> string" where
  "show_int i = (if i < 0 then CHR ''-'' # show_nat (nat (- i)) else show_nat (nat i))"

text \<open>\<^verbatim>\<open>!s\<close> for \<^verbatim>\<open>s: string | undefined\<close>, and \<^verbatim>\<open>s || ""\<close>.\<close>

definition falsy_text :: "string option \<Rightarrow> bool" where
  "falsy_text s = (case s of None \<Rightarrow> True | Some t \<Rightarrow> t = [])"

definition or_empty :: "string option \<Rightarrow> string" where
  "or_empty s = (case s of None \<Rightarrow> [] | Some t \<Rightarrow> t)"

text \<open>\<^verbatim>\<open>!userId\<close> for \<^verbatim>\<open>userId: number | undefined\<close>.\<close>

definition falsy_id :: "int option \<Rightarrow> bool" where
  "falsy_id u = (case u of None \<Rightarrow> True | Some n \<Rightarrow> n = 0)"

text \<open>The advisory of lines 136 to 138, with \<^verbatim>\<open>${Math.floor(+aprxTokens)}\<close>.\<close>

definition advisory :: "deps \<Rightarrow> real \<Rightarrow> string" where
  "advisory d aprxTokens =
     ''Just a heads up, you've used around *'' @
     number_text d (of_int \<lfloor>aprxTokens\<rfloor>) @
     ''* tokens for this query. To help you manage your token usage, we recommend running the */clear* command every so oftens usage.''"

definition apology_text :: string where
  "apology_text = ''Sorry an error has occured, please try again later.''"

section \<open>The conversation turn\<close>

text \<open>
  \<^verbatim>\<open>bot.on("message", ...)\<close>, lines 121 to 163. \<^verbatim>\<open>ctx.update.message.text\<close> throws a
  \<^verbatim>\<open>TypeError\<close> when there is no message; the library's filter only passes updates
  that have one.
\<close>

definition message_text :: "ctx \<Rightarrow> string option promise" where
  "message_text c =
     (case message c of
        None \<Rightarrow> reject (Error ''TypeError: Cannot read properties of undefined (reading 'text')'')
      | Some m \<Rightarrow> resolve (msg_text m))"

text \<open>\<^verbatim>\<open>ctx?.from?.id\<close>.\<close>

definition from_id :: "ctx \<Rightarrow> int option" where
  "from_id c = map_option user_id (from_user c)"

definition turn :: "deps \<Rightarrow> ctx \<Rightarrow> unit promise" where
  "turn d c =
     (let userId = from_id c in
      await (message_text c) (\<lambda>receivedMessage.
      await (if falsy_text receivedMessage
             then no_await (reply d Plain ''No message'') else resolve ()) (\<lambda>_.
      await (getUserMessageHistory d userId) (\<lambda>history.
      let aprxTokens = estimateTokens d (formatMessageHistory d history) in
      await (if aprxTokens > 2000
             then reply d Markdown (advisory d aprxTokens) else resolve ()) (\<lambda>_.
      let msg = \<lparr>role = User, content = or_empty receivedMessage\<rparr> in
      await (askAi d (history @ [msg])) (\<lambda>aiResponse.
      await (updateUserMessageHistory d userId
               (history @ [msg, \<lparr>role = Assistant, content = aiResponse @ ''\<newline>''\<rparr>])) (\<lambda>_.
      try_catch (reply d Plain aiResponse) console_error)))))))"

definition on_message :: "deps \<Rightarrow> ctx \<Rightarrow> unit promise" where
  "on_message d c =
     try_catch (turn d c)
       (\<lambda>err. await (console_error err) (\<lambda>_. no_await (reply d Plain apology_text)))"

section \<open>The command handlers\<close>

text \<open>\<^verbatim>\<open>bot.command("start", ...)\<close>, \<^verbatim>\<open>bot.command("credits", ...)\<close> and
  \<^verbatim>\<open>bot.command("ping", ...)\<close>, lines 69 to 85. The credits handler awaits
  \<^verbatim>\<open>getCredits()\<close> outside any \<^verbatim>\<open>try\<close>; only its reply has a \<^verbatim>\<open>.catch\<close>.\<close>

definition start_cmd :: "deps \<Rightarrow> unit promise" where
  "start_cmd d = reply d Plain ''Welcome! I will be your personal AI Assistant.''"

definition credits_text :: "credits \<Rightarrow> string" where
  "credits_text c =
     ''Here is your total <strong>OpenAI</strong> usage amount:\<newline>Used balance: <strong>'' @
     total_used c @ ''</strong>\<newline>Available balance: <strong>'' @
     total_available c @ ''</strong>''"

definition credits_cmd :: "deps \<Rightarrow> unit promise" where
  "credits_cmd d =
     await (askCredits d) (\<lambda>c.
     try_catch (reply d HTML (credits_text c)) console_error)"

definition ping_cmd :: "deps \<Rightarrow> unit promise" where
  "ping_cmd d = reply d Plain (''Pong! '' @ clock d)"

text \<open>\<^verbatim>\<open>bot.command("history", ...)\<close>, lines 87 to 103.
  \<^verbatim>\<open>s.replaceAll("\n", "")\<close> drops every line feed.\<close>

definition strip_newlines :: "string \<Rightarrow> string" where
  "strip_newlines s = filter (\<lambda>ch. ch \<noteq> CHR 0x0A) s"

definition history_cmd :: "deps \<Rightarrow> ctx \<Rightarrow> unit promise" where
  "history_cmd d c =
     (let userId = getUserId d c in
      if falsy_id userId then reply d Plain ''No User Found''
      else
        await (getUserMessageHistory d userId) (\<lambda>history.
        let aprxTokens =
              estimateTokens d (strip_newlines (formatMessageHistory d history)) in
        await (console_log (strip_newlines (formatMessageHistory d history))) (\<lambda>_.
        let shown = formatMessageHistory d (filter (\<lambda>m. role m \<noteq> System) history);
            answer =
              (if shown \<noteq> []
               then shown @ ''Approximate token usage for your query: '' @
                      number_text d aprxTokens
               else ''History is empty'')
        in reply d Plain answer)))"

text \<open>\<^verbatim>\<open>bot.command("clear", ...)\<close>, lines 109 to 119.\<close>

definition clear_cmd :: "deps \<Rightarrow> ctx \<Rightarrow> unit promise" where
  "clear_cmd d c =
     (let userId = getUserId d c in
      if falsy_id userId then reply d Plain ''No User Found''
      else
        await (clearUserMessageHistory d userId) (\<lambda>_.
        reply d Plain ''Your dialogue has been cleared''))"

section \<open>Authorization and dispatch\<close>

text \<open>
  \<^verbatim>\<open>bot.use(...)\<close>, lines 57 to 67: \<^verbatim>\<open>users.some((user) => ctx.from?.username === user)\<close>.
  A sender without a username, and an update without a sender, compare unequal to every
  entry of the list.
\<close>

definition isOwner :: "string list \<Rightarrow> ctx \<Rightarrow> bool" where
  "isOwner users c = list_ex (\<lambda>user. Option.bind (from_user c) username = Some user) users"

definition denial_text :: string where
  "denial_text = ''Sorry, you are not allowed. This is personal AI Bot''"

definition authorize :: "deps \<Rightarrow> string list \<Rightarrow> ctx \<Rightarrow> unit promise \<Rightarrow> unit promise" where
  "authorize d users c nxt = (if \<not> isOwner users c then reply d Plain denial_text else nxt)"

text \<open>
  \<^verbatim>\<open>bot.errorBoundary(handler, ...middleware)\<close> is the library's: it runs the middleware
  it is given inside a \<^verbatim>\<open>try\<close>, hands what they throw to the handler, and calls the
  rest of the chain outside that \<^verbatim>\<open>try\<close>, and only when the protected middleware
  passed the update on. Line 105 gives it no middleware, so the protected part passes
  every update on and does nothing else.
\<close>

definition errorBoundary ::
    "(error \<Rightarrow> unit promise) \<Rightarrow> unit promise \<Rightarrow> unit promise \<Rightarrow> unit promise" where
  "errorBoundary h bound nxt w =
     (case bound w of
        (Resolved u, w') \<Rightarrow> nxt w'
      | (Rejected e, w') \<Rightarrow> h (BotError e) w'
      | (Exited e, w') \<Rightarrow> (Exited e, w'))"

text \<open>
  The middleware in the order of their registration, lines 57 to 163. A command handler
  takes the update when the command is its own and does not pass it on; the message
  handler takes every update that has a message.
\<close>

definition middleware :: "deps \<Rightarrow> string list \<Rightarrow> ctx \<Rightarrow> unit promise" where
  "middleware d users c =
     authorize d users c
      (if command c = Some ''start'' then start_cmd d
       else if command c = Some ''credits'' then credits_cmd d
       else if command c = Some ''ping'' then ping_cmd d
       else if command c = Some ''history'' then history_cmd d c
       else errorBoundary console_error (resolve ())
         (if command c = Some ''clear'' then clear_cmd d c
          else if message c \<noteq> None then on_message d c
          else resolve ()))"

text \<open>The library's \<^verbatim>\<open>bot.handleUpdate\<close> wraps what the middleware throws and
  throws it on.\<close>

definition handleUpdate :: "deps \<Rightarrow> string list \<Rightarrow> ctx \<Rightarrow> unit promise" where
  "handleUpdate d users c = try_catch (middleware d users c) (\<lambda>e. reject (BotError e))"

section \<open>The webhook\<close>

text \<open>
  \<^verbatim>\<open>serve(async (req) => ...)\<close>, lines 186 to 200. \<^verbatim>\<open>url.searchParams.get\<close> gives
  \<^verbatim>\<open>null\<close> for a parameter that is not there, \<^verbatim>\<open>Deno.env.get\<close> gives
  \<^verbatim>\<open>undefined\<close> for a variable that is not set, and \<^verbatim>\<open>===\<close> holds of two strings
  that are the same and never of \<^verbatim>\<open>null\<close> and \<^verbatim>\<open>undefined\<close>. The callback returns
  a response, or \<^verbatim>\<open>undefined\<close> after it caught an error; its \<^verbatim>\<open>catch\<close> does not
  keep the process from exiting on a rejection that nobody handles. The library's
  \<^verbatim>\<open>webhookCallback\<close> answers 200 once \<^verbatim>\<open>handleUpdate\<close> is done; its reading
  of the request body, its first call of \<^verbatim>\<open>bot.init\<close> and its 40 seconds are not
  modelled: a request carries the update it was parsed to, and its URL is one that
  \<^verbatim>\<open>new URL\<close> accepts.
\<close>

datatype jsval = JNull | JUndefined | JString string

datatype response = Response nat string

record request =
  query :: "(string \<times> string) list"
  body :: ctx

definition searchParams_get :: "request \<Rightarrow> string \<Rightarrow> jsval" where
  "searchParams_get req name =
     (case map_of (query req) name of None \<Rightarrow> JNull | Some v \<Rightarrow> JString v)"

definition env_get :: "(string \<rightharpoonup> string) \<Rightarrow> string \<Rightarrow> jsval" where
  "env_get environ name =
     (case environ name of None \<Rightarrow> JUndefined | Some v \<Rightarrow> JString v)"

definition strict_eq :: "jsval \<Rightarrow> jsval \<Rightarrow> bool" where
  "strict_eq a b = (a = b)"

definition webhookCallback :: "deps \<Rightarrow> string list \<Rightarrow> request \<Rightarrow> response promise" where
  "webhookCallback d users req =
     await (handleUpdate d users (body req)) (\<lambda>_. resolve (Response 200 []))"

definition serve ::
    "deps \<Rightarrow> string list \<Rightarrow> (string \<rightharpoonup> string) \<Rightarrow> request \<Rightarrow> response option promise" where
  "serve d users environ req =
     try_catch
       (let isAllowed =
              strict_eq (searchParams_get req ''secret'') (env_get environ ''FUNCTION_SECRET'')
        in if \<not> isAllowed then resolve (Some (Response 405 ''not allowed''))
           else await (webhookCallback d users req) (\<lambda>r. resolve (Some r)))
       (\<lambda>err. await (console_error err) (\<lambda>_. resolve None))"

section \<open>Startup\<close>

text \<open>
  Lines 19 to 46 and 165 to 182. \<^verbatim>\<open>JSON.parse\<close> is a parameter, with the type the
  source declares for its result (\<^verbatim>\<open>string[]\<close>); so is the outcome of the call
  \<^verbatim>\<open>bot.api.setMyCommands\<close>. \<^verbatim>\<open>x || y\<close> is \<^verbatim>\<open>y\<close> when \<^verbatim>\<open>x\<close> is
  \<^verbatim>\<open>undefined\<close> or the empty string.
\<close>

record config =
  cfg_users :: "string list"
  cfg_botToken :: string

definition or_else :: "string option \<Rightarrow> string \<Rightarrow> string" where
  "or_else x y = (case x of None \<Rightarrow> y | Some s \<Rightarrow> if s = [] then y else s)"

definition token_missing :: string where
  "token_missing = ''Please specify the Telegram Bot Token.''"

definition users_missing :: string where
  "users_missing = ''Please specify the users that have access to the bot.''"

definition startup ::
    "(string \<Rightarrow> error + string list) \<Rightarrow> error option \<Rightarrow> (string \<rightharpoonup> string) \<Rightarrow> error + config" where
  "startup JSON_parse setMyCommands_error environ =
     (case JSON_parse (or_else (environ ''USERS'') ''[]'') of
        Inl e \<Rightarrow> Inl e
      | Inr users \<Rightarrow>
          let botToken = or_else (environ ''BOT_TOKEN'') [] in
          if botToken = [] then Inl (Error token_missing)
          else if length users = 0 then Inl (Error users_missing)
          else (case setMyCommands_error of
                  Some e \<Rightarrow> Inl e
                | None \<Rightarrow> Inr \<lparr>cfg_users = users, cfg_botToken = botToken\<rparr>))"

section \<open>Observing a run\<close>

text \<open>What a computation started in \<open>w\<close> leaves behind: its outcome, the store, and
  the events it added to the trace.\<close>

definition outcome :: "'a promise \<Rightarrow> world \<Rightarrow> 'a result" where
  "outcome m w = fst (m w)"

definition store_after :: "'a promise \<Rightarrow> world \<Rightarrow> int option \<Rightarrow> Message list" where
  "store_after m w = store (snd (m w))"

definition events :: "'a promise \<Rightarrow> world \<Rightarrow> event list" where
  "events m w = drop (length (trace w)) (trace (snd (m w)))"

section \<open>Sample collaborators\<close>

text \<open>
  Modelled from the spec: \<^verbatim>\<open>formatMessageHistory\<close> is a function of \<^verbatim>\<open>utils.ts\<close>,
  which is not among the sources. Section 4.3 of the specification: the output
  concatenates each message as \<^verbatim>\<open>"<role>: <content>\n"\<close> in sequence order, and the
  empty sequence gives the empty string. It is used below only as one instance of the
  parameter \<open>formatMessageHistory\<close>.
\<close>

definition role_name :: "role \<Rightarrow> string" where
  "role_name r = (case r of System \<Rightarrow> ''system'' | User \<Rightarrow> ''user'' | Assistant \<Rightarrow> ''assistant'')"

definition formatMessageHistory_spec :: "Message list \<Rightarrow> string" where
  "formatMessageHistory_spec msgs =
     concat (map (\<lambda>m. role_name (role m) @ '': '' @ content m @ ''\<newline>'') msgs)"

text \<open>
  One instance of the collaborators, for running the handlers on concrete inputs: the
  user id is the sender's, the estimate is a thousand tokens per character, a number
  prints as the decimal digits of its integer part, the provider answers "hi there", and
  every call of the store and of the platform succeeds.
\<close>

definition sample_deps :: deps where
  "sample_deps =
     \<lparr>getUserId = from_id,
      estimateTokens = (\<lambda>s. 1000 * real (length s)),
      formatMessageHistory = formatMessageHistory_spec,
      getAiResponse = (\<lambda>msgs. Inr ''hi there''),
      getCredits = Inr \<lparr>total_available = ''18'', total_used = ''0.5''\<rparr>,
      store_read_error = (\<lambda>u. None),
      store_write_error = (\<lambda>u. None),
      send_error = (\<lambda>s. None),
      number_text = (\<lambda>x. show_int \<lfloor>x\<rfloor>),
      clock = ''Thu Jan 01 1970 00:00:00 GMT+0000 0''\<rparr>"

definition empty_world :: world where
  "empty_world = \<lparr>store = (\<lambda>u. []), trace = []\<rparr>"

definition alice :: tg_user where
  "alice = \<lparr>user_id = 7, username = Some ''alice''\<rparr>"

definition mallory :: tg_user where
  "mallory = \<lparr>user_id = 9, username = Some ''mallory''\<rparr>"

text \<open>An update with a text message, and one with a message that has no text (a photo,
  a sticker).\<close>

definition text_update :: "tg_user option \<Rightarrow> string \<Rightarrow> ctx" where
  "text_update u s = \<lparr>from_user = u, message = Some \<lparr>msg_text = Some s\<rparr>, command = None\<rparr>"

definition command_update :: "tg_user option \<Rightarrow> string \<Rightarrow> ctx" where
  "command_update u name =
     \<lparr>from_user = u, message = Some \<lparr>msg_text = Some (CHR ''/'' # name)\<rparr>, command = Some name\<rparr>"

definition photo_update :: "tg_user option \<Rightarrow> ctx" where
  "photo_update u = \<lparr>from_user = u, message = Some \<lparr>msg_text = None\<rparr>, command = None\<rparr>"

text \<open>A \<^verbatim>\<open>JSON.parse\<close> for the texts it is given below: it agrees with the built-in on
  \<^verbatim>\<open>[]\<close> and on \<^verbatim>\<open>["alice"]\<close>, and on \<^verbatim>\<open>[\<close>, which is not JSON.\<close>

definition sample_parse :: "string \<Rightarrow> error + string list" where
  "sample_parse s =
     (if s = ''[]'' then Inr []
      else if s = ''[\"alice\"]'' then Inr [''alice'']
      else Inl (Error ''SyntaxError''))"

text \<open>The sample collaborators with a completion provider that rejects every request,
  and a world in which the user 7 has talked before.\<close>

definition failing_deps :: deps where
  "failing_deps = sample_deps\<lparr>getAiResponse := (\<lambda>msgs. Inl (Error ''provider unavailable''))\<rparr>"

definition talked_world :: world where
  "talked_world =
     \<lparr>store = (\<lambda>u. if u = Some 7
                    then [\<lparr>role = User, content = ''hi''\<rparr>,
                          \<lparr>role = Assistant, content = ''hello\<newline>''\<rparr>]
                    else []),
      trace = []\<rparr>"

text \<open>
  The sample collaborators with a platform that refuses every reply (it answers 429),
  with both that and a provider that rejects, and with a platform that refuses the
  advisory alone.
\<close>

definition refusing_deps :: deps where
  "refusing_deps =
     sample_deps\<lparr>send_error := (\<lambda>s. Some (Error ''Too Many Requests: retry after 5''))\<rparr>"

definition failing_refusing_deps :: deps where
  "failing_refusing_deps =
     failing_deps\<lparr>send_error := (\<lambda>s. Some (Error ''Too Many Requests: retry after 5''))\<rparr>"

definition advisory_refused_deps :: deps where
  "advisory_refused_deps =
     sample_deps\<lparr>send_error :=
       (\<lambda>s. if take 4 s = ''Just''
            then Some (Error ''Bad Request: can't parse entities'') else None)\<rparr>"

text \<open>The sample collaborators with a usage query that rejects, and with a store that
  cannot be reached.\<close>

definition credits_down_deps :: deps where
  "credits_down_deps = sample_deps\<lparr>getCredits := Inl (Error ''usage endpoint unavailable'')\<rparr>"

definition store_down_deps :: deps where
  "store_down_deps =
     sample_deps\<lparr>store_read_error := (\<lambda>u. Some (Error ''store unreachable'')),
                 store_write_error := (\<lambda>u. Some (Error ''store unreachable''))\<rparr>"

text \<open>A process environment with the three variables, one without the shared secret,
  a request with a \<^verbatim>\<open>secret\<close> parameter and one without any.\<close>

definition sample_environ :: "string \<rightharpoonup> string" where
  "sample_environ =
     [''USERS'' \<mapsto> ''[\"alice\"]'', ''BOT_TOKEN'' \<mapsto> ''123:abc'', ''FUNCTION_SECRET'' \<mapsto> ''s3cret'']"

definition unset_secret_environ :: "string \<rightharpoonup> string" where
  "unset_secret_environ = [''USERS'' \<mapsto> ''[\"alice\"]'', ''BOT_TOKEN'' \<mapsto> ''123:abc'']"

text \<open>Environments with the allow-list missing, with the token missing, and with the
  token missing and an allow-list that is not JSON.\<close>

definition unset_users_environ :: "string \<rightharpoonup> string" where
  "unset_users_environ = [''BOT_TOKEN'' \<mapsto> ''123:abc'', ''FUNCTION_SECRET'' \<mapsto> ''s3cret'']"

definition unset_token_environ :: "string \<rightharpoonup> string" where
  "unset_token_environ = [''USERS'' \<mapsto> ''[\"alice\"]'', ''FUNCTION_SECRET'' \<mapsto> ''s3cret'']"

definition broken_users_environ :: "string \<rightharpoonup> string" where
  "broken_users_environ = [''USERS'' \<mapsto> ''['', ''FUNCTION_SECRET'' \<mapsto> ''s3cret'']"

definition sample_request :: "string \<Rightarrow> ctx \<Rightarrow> request" where
  "sample_request secret c = \<lparr>query = [(''secret'', secret)], body = c\<rparr>"

definition bare_request :: "ctx \<Rightarrow> request" where
  "bare_request c = \<lparr>query = [], body = c\<rparr>"

section \<open>Running the handlers\<close>

declare show_nat.simps [simp del]

lemmas promise_defs =
  resolve_def reject_def await_def emit_def try_catch_def no_await_def
  console_error_def console_log_def reply_def
  getUserMessageHistory_def updateUserMessageHistory_def clearUserMessageHistory_def
  askAi_def askCredits_def

lemmas run_defs = outcome_def store_after_def events_def

lemmas sample_defs =
  sample_deps_def empty_world_def alice_def mallory_def text_update_def
  command_update_def photo_update_def formatMessageHistory_spec_def role_name_def
  from_id_def failing_deps_def talked_world_def credits_down_deps_def store_down_deps_def
  refusing_deps_def failing_refusing_deps_def advisory_refused_deps_def

text \<open>
  The world after a turn in which every awaited call succeeds. The advisory has to be
  accepted by the platform only when it is sent, and so has the reply "No message",
  which is sent when the text is missing or empty.
\<close>

lemma on_message_success:
  fixes d :: deps and c :: ctx and w :: world
  defines "uid \<equiv> from_id c"
  defines "est \<equiv> estimateTokens d (formatMessageHistory d (store w uid))"
  assumes "message c = Some m"
      and "falsy_text (msg_text m) \<longrightarrow> send_error d ''No message'' = None"
      and "store_read_error d uid = None"
      and "2000 < est \<longrightarrow> send_error d (advisory d est) = None"
      and "getAiResponse d (store w uid @ [\<lparr>role = User, content = or_empty (msg_text m)\<rparr>]) = Inr r"
      and "store_write_error d uid = None"
  shows "on_message d c w =
     (Resolved (),
      w\<lparr>store := (store w)(uid :=
            store w uid @
              [\<lparr>role = User, content = or_empty (msg_text m)\<rparr>,
               \<lparr>role = Assistant, content = r @ ''\<newline>''\<rparr>]),
        trace := trace w @
          (if falsy_text (msg_text m) then [Reply Plain ''No message''] else []) @
          [GetHistory uid] @
          (if 2000 < est then [Reply Markdown (advisory d est)] else []) @
          [AiRequest (store w uid @ [\<lparr>role = User, content = or_empty (msg_text m)\<rparr>]),
           UpdateHistory uid
             (store w uid @
              [\<lparr>role = User, content = or_empty (msg_text m)\<rparr>,
               \<lparr>role = Assistant, content = r @ ''\<newline>''\<rparr>]),
           Reply Plain r] @
          (case send_error d r of None \<Rightarrow> [] | Some e \<Rightarrow> [ConsoleError e])\<rparr>)"
  using assms
  by (auto simp: on_message_def turn_def message_text_def promise_defs Let_def
      split: option.splits sum.splits if_splits prod.splits result.splits)




text \<open>The world after a turn whose read of the store fails.\<close>

lemma on_message_read_failure:
  fixes d :: deps and c :: ctx and w :: world
  assumes "message c = Some m"
      and "falsy_text (msg_text m) \<longrightarrow> send_error d ''No message'' = None"
      and "store_read_error d (from_id c) = Some e"
  shows "on_message d c w =
     ((case send_error d apology_text of None \<Rightarrow> Resolved () | Some e' \<Rightarrow> Exited e'),
      w\<lparr>trace := trace w @
          (if falsy_text (msg_text m) then [Reply Plain ''No message''] else []) @
          [GetHistory (from_id c), ConsoleError e, Reply Plain apology_text] @
          (case send_error d apology_text of
             None \<Rightarrow> [] | Some e' \<Rightarrow> [UnhandledRejection e'])\<rparr>)"
  using assms
  by (auto simp: on_message_def turn_def message_text_def promise_defs Let_def
      split: option.splits sum.splits if_splits prod.splits result.splits)

text \<open>A refused "No message" is handled by nobody: the process exits.\<close>

lemma on_message_no_message_refused:
  assumes "message c = Some m"
      and "falsy_text (msg_text m)"
      and "send_error d ''No message'' = Some e"
  shows "outcome (on_message d c) w = Exited e"
  using assms
  by (simp add: on_message_def turn_def message_text_def promise_defs outcome_def Let_def)

text \<open>Whatever the turn does, the message handler itself never throws: its
  \<^verbatim>\<open>catch\<close> block logs, and starts a reply that it does not await.\<close>

lemma on_message_never_rejects: "outcome (on_message d c) w \<noteq> Rejected e"
  by (simp add: on_message_def try_catch_def await_def console_error_def emit_def
      no_await_def outcome_def split: prod.splits result.splits)

section \<open>Properties of the conversation turn\<close>

text \<open>
  C1, turn atomicity. The part on the history holds: when the provider rejects the
  request nothing is written (\<open>on_message_provider_failure\<close>), the error is logged and
  the apology is started. The part on not crashing does not: the apology of line 161 is
  started without \<^verbatim>\<open>await\<close> and without \<^verbatim>\<open>.catch\<close>, unlike the reply of line 158.
  With a provider that rejects and a platform that refuses the bot's replies, the
  handler catches the provider's error, logs it and starts the apology; the refusal of
  the apology is handled by nobody, and the process exits.
\<close>

theorem apology_refused_exits:
  "getAiResponse failing_refusing_deps [\<lparr>role = User, content = ''hello''\<rparr>] =
     Inl (Error ''provider unavailable'') \<and>
   on_message failing_refusing_deps (text_update (Some alice) ''hello'') empty_world =
     (Exited (Error ''Too Many Requests: retry after 5''),
      empty_world\<lparr>trace :=
        [GetHistory (Some 7),
         AiRequest [\<lparr>role = User, content = ''hello''\<rparr>],
         ConsoleError (Error ''provider unavailable''),
         Reply Plain ''Sorry an error has occured, please try again later.'',
         UnhandledRejection (Error ''Too Many Requests: retry after 5'')]\<rparr>) \<and>
   outcome (serve failing_refusing_deps [''alice''] sample_environ
              (sample_request ''s3cret'' (text_update (Some alice) ''hello''))) empty_world =
     Exited (Error ''Too Many Requests: retry after 5'')"
  by (simp add: on_message_def turn_def message_text_def promise_defs sample_defs
      serve_def webhookCallback_def handleUpdate_def middleware_def authorize_def
      isOwner_def errorBoundary_def outcome_def sample_environ_def sample_request_def
      strict_eq_def searchParams_get_def env_get_def falsy_text_def or_empty_def Let_def
      apology_text_def)

text \<open>
  C2, persisted turn shape. In a turn in which every awaited call succeeds, on a message
  with the text \<open>t\<close> and the provider's answer \<open>r\<close>: the stored history of the sender
  becomes the prior history followed by the user message with \<open>t\<close> and the assistant
  message with \<open>r\<close> and one line feed; the one call of \<^verbatim>\<open>updateUserMessageHistory\<close>
  in the run writes exactly that; and \<^verbatim>\<open>ctx.reply\<close> is called with \<open>r\<close> as it came.
  For the empty text, which the platform does not deliver, the reply "No message" is
  made first, and the turn goes on when that reply is accepted. The witness is
  scenario A of the specification.
\<close>

theorem persisted_turn_shape:
  fixes d :: deps and c :: ctx and w :: world
  defines "uid \<equiv> from_id c"
  defines "est \<equiv> estimateTokens d (formatMessageHistory d (store w uid))"
  defines "evs \<equiv> events (on_message d c) w"
  assumes msg: "message c = Some m" and some_t: "msg_text m = Some t"
      and nm: "t = [] \<Longrightarrow> send_error d ''No message'' = None"
      and rd: "store_read_error d uid = None"
      and adv: "2000 < est \<Longrightarrow> send_error d (advisory d est) = None"
      and ask: "getAiResponse d (store w uid @ [\<lparr>role = User, content = t\<rparr>]) = Inr r"
      and wr: "store_write_error d uid = None"
  shows "store_after (on_message d c) w =
           (store w)(uid := store w uid @
              [\<lparr>role = User, content = t\<rparr>,
               \<lparr>role = Assistant, content = r @ ''\<newline>''\<rparr>]) \<and>
         (\<forall>u ms. (UpdateHistory u ms \<in> set evs) =
            (u = uid \<and> ms = store w uid @
              [\<lparr>role = User, content = t\<rparr>,
               \<lparr>role = Assistant, content = r @ ''\<newline>''\<rparr>])) \<and>
         Reply Plain r \<in> set evs \<and>
         outcome (on_message d c) w = Resolved ()"
proof -
  have nm': "falsy_text (msg_text m) \<longrightarrow> send_error d ''No message'' = None"
    using nm some_t by (simp add: falsy_text_def)
  have adv': "2000 < estimateTokens d (formatMessageHistory d (store w (from_id c))) \<longrightarrow>
      send_error d (advisory d (estimateTokens d (formatMessageHistory d (store w (from_id c))))) =
        None"
    using adv by (simp add: uid_def est_def)
  have user: "or_empty (msg_text m) = t"
    using some_t by (simp add: or_empty_def)
  have ask': "getAiResponse d
      (store w (from_id c) @ [\<lparr>role = User, content = or_empty (msg_text m)\<rparr>]) = Inr r"
    using ask user by (simp add: uid_def)
  note run = on_message_success [OF msg nm' rd [unfolded uid_def] adv' ask' wr [unfolded uid_def]]
  show ?thesis
    unfolding uid_def est_def evs_def run_defs
    by (auto simp: run user split: option.splits)
qed

theorem scenario_A:
  "store empty_world (Some 7) = [] \<and>
   store_after (on_message sample_deps (text_update (Some alice) ''hello'')) empty_world (Some 7) =
     [\<lparr>role = User, content = ''hello''\<rparr>, \<lparr>role = Assistant, content = ''hi there\<newline>''\<rparr>] \<and>
   Reply Plain ''hi there'' \<in>
     set (events (on_message sample_deps (text_update (Some alice) ''hello'')) empty_world)"
  using persisted_turn_shape [where d = sample_deps and c = "text_update (Some alice) ''hello''"
      and w = empty_world and m = "\<lparr>msg_text = Some ''hello''\<rparr>" and t = "''hello''"
      and r = "''hi there''"]
  by (simp add: sample_defs)




text \<open>
  C9, a message without text. When the reply "No message" is accepted the turn goes on
  as the claim says (\<open>on_message_success\<close>). But line 127 starts that reply without
  \<^verbatim>\<open>await\<close> and without \<^verbatim>\<open>.catch\<close>, unlike the reply of line 158: on a photo
  whose reply "No message" the platform refuses, the refusal is handled by nobody and
  the process exits, where the claim says the turn is completed.
\<close>

theorem no_message_refused_exits:
  "message (photo_update (Some alice)) = Some \<lparr>msg_text = None\<rparr> \<and>
   send_error refusing_deps ''No message'' = Some (Error ''Too Many Requests: retry after 5'') \<and>
   outcome (on_message refusing_deps (photo_update (Some alice))) talked_world =
     Exited (Error ''Too Many Requests: retry after 5'') \<and>
   outcome (serve refusing_deps [''alice''] sample_environ
              (sample_request ''s3cret'' (photo_update (Some alice)))) talked_world =
     Exited (Error ''Too Many Requests: retry after 5'')"
  by (simp add: on_message_def turn_def message_text_def promise_defs sample_defs
      serve_def webhookCallback_def handleUpdate_def middleware_def authorize_def
      isOwner_def errorBoundary_def outcome_def sample_environ_def sample_request_def
      strict_eq_def searchParams_get_def env_get_def falsy_text_def Let_def)

section \<open>Properties of authorization and identity\<close>

text \<open>The flag \<^verbatim>\<open>isOwner\<close> holds exactly of a sender with a username of the list.\<close>

lemma isOwner_iff:
  "isOwner users c =
     (\<exists>u n. from_user c = Some u \<and> username u = Some n \<and> n \<in> set users)"
  by (cases "from_user c") (auto simp: isOwner_def list_ex_iff)

text \<open>
  C6, authorization gate. For an update whose sender is not an owner (the username is
  not in the allow-list, or there is none), all the bot does is call \<^verbatim>\<open>ctx.reply\<close>
  with the denial: no later handler runs, so there is no history read, no history write
  and no call of the provider, and the store is as it was.
\<close>

theorem authorization_gate:
  assumes "\<not> isOwner users c"
  shows "events (handleUpdate d users c) w = [Reply Plain denial_text] \<and>
         store_after (handleUpdate d users c) w = store w"
  using assms
  by (simp add: handleUpdate_def middleware_def authorize_def promise_defs run_defs
      split: option.splits)

text \<open>Scenario C of the specification.\<close>

theorem scenario_C:
  "\<not> isOwner [''alice''] (command_update (Some mallory) ''start'') \<and>
   events (handleUpdate sample_deps [''alice''] (command_update (Some mallory) ''start''))
     talked_world = [Reply Plain denial_text] \<and>
   store_after (handleUpdate sample_deps [''alice''] (command_update (Some mallory) ''start''))
     talked_world = store talked_world"
  using authorization_gate [where users = "[''alice'']"
      and c = "command_update (Some mallory) ''start''" and d = sample_deps and w = talked_world]
  by (simp add: isOwner_def sample_defs)

text \<open>
  C3, identity resolution, as the code has it. An update without a sender has no
  username either, so the authorization middleware ends it with the denial, and nothing
  else happens: no history read, no history write, no call of the provider. The exit
  with "No User Found" is that of the handlers of \<^verbatim>\<open>/history\<close> and \<^verbatim>\<open>/clear\<close>,
  which make no call of a collaborator when \<^verbatim>\<open>getUserId\<close> gives no id.
\<close>

theorem no_sender_is_denied:
  "(from_user c = None \<longrightarrow>
      events (handleUpdate d users c) w = [Reply Plain denial_text] \<and>
      store_after (handleUpdate d users c) w = store w) \<and>
   (falsy_id (getUserId d c) \<longrightarrow>
      events (history_cmd d c) w = [Reply Plain ''No User Found''] \<and>
      store_after (history_cmd d c) w = store w \<and>
      events (clear_cmd d c) w = [Reply Plain ''No User Found''] \<and>
      store_after (clear_cmd d c) w = store w)"
  by (simp add: handleUpdate_def middleware_def authorize_def isOwner_def history_cmd_def
      clear_cmd_def promise_defs run_defs list_ex_iff split: option.splits)

theorem no_sender_witness:
  "from_user (text_update None ''hello'') = None \<and>
   falsy_id (getUserId sample_deps (text_update None ''hello'')) \<and>
   events (handleUpdate sample_deps [''alice''] (text_update None ''hello'')) talked_world =
     [Reply Plain denial_text] \<and>
   events (history_cmd sample_deps (text_update None ''hello'')) talked_world =
     [Reply Plain ''No User Found''] \<and>
   events (clear_cmd sample_deps (text_update None ''hello'')) talked_world =
     [Reply Plain ''No User Found''] \<and>
   store_after (clear_cmd sample_deps (text_update None ''hello'')) talked_world =
     store talked_world"
  using no_sender_is_denied [where c = "text_update None ''hello''" and d = sample_deps
      and users = "[''alice'']" and w = talked_world]
  by (simp add: sample_defs falsy_id_def)

text \<open>
  C3 as stated fails. The message handler has no check of the user id: run on a message
  without a sender it reads the history under the key \<^verbatim>\<open>undefined\<close>, calls the
  provider and writes, and it never replies "No User Found". Through the bot the same
  update is answered with the denial, not with "No User Found".
\<close>

theorem anonymous_message_is_processed:
  "from_id (text_update None ''hello'') = None \<and>
   events (on_message sample_deps (text_update None ''hello'')) empty_world =
     [GetHistory None,
      AiRequest [\<lparr>role = User, content = ''hello''\<rparr>],
      UpdateHistory None
        [\<lparr>role = User, content = ''hello''\<rparr>, \<lparr>role = Assistant, content = ''hi there\<newline>''\<rparr>],
      Reply Plain ''hi there''] \<and>
   events (handleUpdate sample_deps [''alice''] (text_update None ''hello'')) empty_world =
     [Reply Plain denial_text]"
  by (simp add: on_message_def turn_def message_text_def promise_defs run_defs sample_defs
      handleUpdate_def middleware_def authorize_def isOwner_def
      falsy_text_def or_empty_def Let_def)

section \<open>Properties of the webhook and of startup\<close>

text \<open>
  C7, webhook secret gate. When the \<^verbatim>\<open>secret\<close> parameter of the request is not
  strictly equal to the configured \<^verbatim>\<open>FUNCTION_SECRET\<close>, the callback resolves to the
  response 405 "not allowed" and the world is untouched: nothing of the bot has run.
\<close>

theorem webhook_secret_gate:
  assumes "\<not> strict_eq (searchParams_get req ''secret'') (env_get environ ''FUNCTION_SECRET'')"
  shows "serve d users environ req w = (Resolved (Some (Response 405 ''not allowed'')), w)"
  using assms by (simp add: serve_def promise_defs)

theorem webhook_secret_gate_witness:
  "searchParams_get (sample_request ''guess'' (text_update (Some alice) ''hello'')) ''secret'' =
     JString ''guess'' \<and>
   env_get sample_environ ''FUNCTION_SECRET'' = JString ''s3cret'' \<and>
   serve sample_deps [''alice''] sample_environ
     (sample_request ''guess'' (text_update (Some alice) ''hello'')) talked_world =
     (Resolved (Some (Response 405 ''not allowed'')), talked_world)"
  using webhook_secret_gate [where req = "sample_request ''guess'' (text_update (Some alice) ''hello'')"
      and environ = sample_environ and d = sample_deps and users = "[''alice'']"
      and w = talked_world]
  by (simp add: strict_eq_def searchParams_get_def env_get_def sample_environ_def
      sample_request_def)

text \<open>
  C10, a missing webhook secret fails closed. When \<^verbatim>\<open>FUNCTION_SECRET\<close> is not set,
  the comparison is false for every request, with any \<^verbatim>\<open>secret\<close> parameter or with
  none, and every request is answered 405 with the world untouched.
\<close>

theorem missing_secret_fails_closed:
  assumes "environ ''FUNCTION_SECRET'' = None"
  shows "\<not> strict_eq (searchParams_get req ''secret'') (env_get environ ''FUNCTION_SECRET'') \<and>
         serve d users environ req w = (Resolved (Some (Response 405 ''not allowed'')), w)"
  using assms
  by (simp add: serve_def promise_defs strict_eq_def env_get_def searchParams_get_def
      split: option.splits)

theorem missing_secret_witness:
  "unset_secret_environ ''FUNCTION_SECRET'' = None \<and>
   serve sample_deps [''alice''] unset_secret_environ
     (sample_request ''s3cret'' (text_update (Some alice) ''hello'')) talked_world =
     (Resolved (Some (Response 405 ''not allowed'')), talked_world) \<and>
   serve sample_deps [''alice''] unset_secret_environ
     (sample_request [] (text_update (Some alice) ''hello'')) talked_world =
     (Resolved (Some (Response 405 ''not allowed'')), talked_world) \<and>
   serve sample_deps [''alice''] unset_secret_environ
     (bare_request (text_update (Some alice) ''hello'')) talked_world =
     (Resolved (Some (Response 405 ''not allowed'')), talked_world)"
  using missing_secret_fails_closed [where environ = unset_secret_environ
      and req = "sample_request ''s3cret'' (text_update (Some alice) ''hello'')"
      and d = sample_deps and users = "[''alice'']" and w = talked_world]
    missing_secret_fails_closed [where environ = unset_secret_environ
      and req = "sample_request [] (text_update (Some alice) ''hello'')"
      and d = sample_deps and users = "[''alice'']" and w = talked_world]
    missing_secret_fails_closed [where environ = unset_secret_environ
      and req = "bare_request (text_update (Some alice) ''hello'')"
      and d = sample_deps and users = "[''alice'']" and w = talked_world]
  by (simp add: unset_secret_environ_def)

text \<open>
  C8, startup, as the code has it. With \<^verbatim>\<open>USERS\<close> missing startup throws one of
  the two descriptive errors: the one for the token when the token is missing or empty
  too (its check comes first), else the one for the users. With \<^verbatim>\<open>BOT_TOKEN\<close>
  missing startup throws as well: \<^verbatim>\<open>JSON.parse\<close> of line 19 runs before the check
  of the token, so the error is the one \<^verbatim>\<open>JSON.parse\<close> throws when the text of
  \<^verbatim>\<open>USERS\<close> does not parse, and the descriptive error for the token whenever it
  parses. \<^verbatim>\<open>FUNCTION_SECRET\<close> is not read at startup: setting or unsetting it
  changes nothing of the outcome.
\<close>

theorem startup_fail_fast:
  assumes "JSON_parse ''[]'' = Inr []"
  shows "(environ ''USERS'' = None \<longrightarrow>
            startup JSON_parse sm environ =
              Inl (Error (if or_else (environ ''BOT_TOKEN'') [] = []
                          then token_missing else users_missing))) \<and>
         (environ ''BOT_TOKEN'' = None \<longrightarrow>
            startup JSON_parse sm environ =
              (case JSON_parse (or_else (environ ''USERS'') ''[]'') of
                 Inl e \<Rightarrow> Inl e
               | Inr us \<Rightarrow> Inl (Error token_missing))) \<and>
         startup JSON_parse sm (environ(''FUNCTION_SECRET'' := v)) =
           startup JSON_parse sm environ"
  using assms
  by (auto simp: startup_def or_else_def Let_def split: sum.splits option.splits)

theorem startup_fail_fast_witness:
  "sample_parse ''[]'' = Inr [] \<and>
   unset_users_environ ''USERS'' = None \<and>
   startup sample_parse None unset_users_environ = Inl (Error users_missing) \<and>
   unset_token_environ ''BOT_TOKEN'' = None \<and>
   startup sample_parse None unset_token_environ = Inl (Error token_missing) \<and>
   broken_users_environ ''BOT_TOKEN'' = None \<and>
   startup sample_parse None broken_users_environ = Inl (Error ''SyntaxError'') \<and>
   Map.empty ''USERS'' = (None :: string option) \<and>
   startup sample_parse None Map.empty = Inl (Error token_missing) \<and>
   startup sample_parse None (sample_environ(''FUNCTION_SECRET'' := None)) =
     startup sample_parse None sample_environ"
  using startup_fail_fast [where JSON_parse = sample_parse and sm = None
      and environ = unset_users_environ]
    startup_fail_fast [where JSON_parse = sample_parse and sm = None
      and environ = unset_token_environ]
    startup_fail_fast [where JSON_parse = sample_parse and sm = None
      and environ = broken_users_environ]
    startup_fail_fast [where JSON_parse = sample_parse and sm = None
      and environ = Map.empty]
    startup_fail_fast [where JSON_parse = sample_parse and sm = None
      and environ = sample_environ and v = None]
  by (simp add: sample_parse_def or_else_def unset_users_environ_def unset_token_environ_def
      broken_users_environ_def)

text \<open>
  C8 as stated fails for the third value. With the allow-list and the token set and
  \<^verbatim>\<open>FUNCTION_SECRET\<close> missing, startup does not abort: it returns the configuration.
\<close>

theorem startup_without_secret:
  "unset_secret_environ ''FUNCTION_SECRET'' = None \<and>
   startup sample_parse None unset_secret_environ =
     Inr \<lparr>cfg_users = [''alice''], cfg_botToken = ''123:abc''\<rparr>"
  by (simp add: startup_def unset_secret_environ_def sample_parse_def or_else_def)

section \<open>Errors of the command handlers\<close>

text \<open>A rejected usage query makes the credits handler reject, with no reply; so does a
  failed read for the history handler and a failed write for the clear handler.\<close>

lemma credits_cmd_rejects:
  assumes "getCredits d = Inl e"
  shows "credits_cmd d w = (Rejected e, w\<lparr>trace := trace w @ [CreditsRequest]\<rparr>)"
  using assms by (simp add: credits_cmd_def promise_defs)

lemma history_cmd_rejects:
  assumes "\<not> falsy_id (getUserId d c)" and "store_read_error d (getUserId d c) = Some e"
  shows "history_cmd d c w = (Rejected e, w\<lparr>trace := trace w @ [GetHistory (getUserId d c)]\<rparr>)"
  using assms by (simp add: history_cmd_def promise_defs)

lemma clear_cmd_rejects:
  assumes "\<not> falsy_id (getUserId d c)" and "store_write_error d (getUserId d c) = Some e"
  shows "clear_cmd d c w = (Rejected e, w\<lparr>trace := trace w @ [ClearHistory (getUserId d c)]\<rparr>)"
  using assms by (simp add: clear_cmd_def promise_defs)

text \<open>
  C4, error propagation. The message handler catches what its collaborators throw
  (\<open>on_message_never_rejects\<close>), and the code does not do it for the commands. The
  handlers of \<^verbatim>\<open>/credits\<close>, \<^verbatim>\<open>/history\<close> and \<^verbatim>\<open>/clear\<close> await their
  collaborator outside any \<^verbatim>\<open>try\<close>: when the usage query or the store fails the
  handler rejects with that error and no reply is made. The error boundary of line 105
  protects no middleware, so the error leaves the bot, wrapped, and it is the
  \<^verbatim>\<open>catch\<close> of the \<^verbatim>\<open>serve\<close> callback that logs it; the callback returns no
  response, and the user is told nothing.
\<close>

theorem command_errors_escape:
  "credits_cmd credits_down_deps empty_world =
     (Rejected (Error ''usage endpoint unavailable''), empty_world\<lparr>trace := [CreditsRequest]\<rparr>) \<and>
   history_cmd store_down_deps (command_update (Some alice) ''history'') empty_world =
     (Rejected (Error ''store unreachable''), empty_world\<lparr>trace := [GetHistory (Some 7)]\<rparr>) \<and>
   clear_cmd store_down_deps (command_update (Some alice) ''clear'') empty_world =
     (Rejected (Error ''store unreachable''), empty_world\<lparr>trace := [ClearHistory (Some 7)]\<rparr>) \<and>
   serve credits_down_deps [''alice''] sample_environ
     (sample_request ''s3cret'' (command_update (Some alice) ''credits'')) empty_world =
     (Resolved None,
      empty_world\<lparr>trace :=
        [CreditsRequest, ConsoleError (BotError (Error ''usage endpoint unavailable''))]\<rparr>) \<and>
   serve store_down_deps [''alice''] sample_environ
     (sample_request ''s3cret'' (command_update (Some alice) ''history'')) empty_world =
     (Resolved None,
      empty_world\<lparr>trace :=
        [GetHistory (Some 7), ConsoleError (BotError (Error ''store unreachable''))]\<rparr>) \<and>
   serve store_down_deps [''alice''] sample_environ
     (sample_request ''s3cret'' (command_update (Some alice) ''clear'')) empty_world =
     (Resolved None,
      empty_world\<lparr>trace :=
        [ClearHistory (Some 7), ConsoleError (BotError (Error ''store unreachable''))]\<rparr>)"
  by (simp add: serve_def webhookCallback_def handleUpdate_def middleware_def authorize_def
      isOwner_def errorBoundary_def credits_cmd_def history_cmd_def clear_cmd_def
      promise_defs sample_defs sample_environ_def sample_request_def strict_eq_def
      searchParams_get_def env_get_def falsy_id_def)

end
